theory Spec2Isabelle
  imports Main "HOL-Library.Word"
begin

section \<open>Placement rules of the satellite overlay (satellite/overlay/placement.go)\<close>

text \<open>
  The file embeds \<^verbatim>\<open>ConfigurablePlacementRule\<close>: a registry from placement constraints to
  node filters, its loader \<^verbatim>\<open>AddPlacementFromString\<close> with the table of built-in functions
  the loader hands to the expression evaluator, the lookup \<^verbatim>\<open>CreateFilters\<close> and the
  rendering \<^verbatim>\<open>String\<close>.

  Go strings are byte sequences: \<^typ>\<open>string\<close>. A Go function that returns \<^verbatim>\<open>(T, error)\<close>
  and may panic has a result of three shapes.
\<close>

subsection \<open>Results: a value, a returned error, or a panic\<close>

type_synonym CountryCode = "16 word"
  \<comment> \<open>\<^verbatim>\<open>location.CountryCode\<close>, a \<^verbatim>\<open>uint16\<close>\<close>

type_synonym PlacementConstraint = "16 word"
  \<comment> \<open>\<^verbatim>\<open>storj.PlacementConstraint\<close>, a \<^verbatim>\<open>uint16\<close>\<close>

datatype panic =
    IndexOutOfRange          \<comment> \<open>\<^verbatim>\<open>s[i]\<close> with \<^verbatim>\<open>i >= len(s)\<close>\<close>
  | InterfaceConversion      \<comment> \<open>\<^verbatim>\<open>v.(T)\<close> on a value that is nil or not a \<^verbatim>\<open>T\<close>\<close>
  | AssignmentToNilMap       \<comment> \<open>\<^verbatim>\<open>m[k] = v\<close> on a nil map\<close>

datatype error =
    InvalidCountryCode CountryCode
      \<comment> \<open>\<^verbatim>\<open>errs.New("invalid country code %q", code)\<close>: the value formatted is \<^verbatim>\<open>code\<close>\<close>
  | AndOnlyBetweenNodeFilters
      \<comment> \<open>\<^verbatim>\<open>errs.New("&& is supported only between NodeFilter instances")\<close>\<close>
  | TagThirdArgument
      \<comment> \<open>\<^verbatim>\<open>errs.New("3rd argument of tag() should be string or []byte")\<close>\<close>
  | NodeIDError string       \<comment> \<open>an error of \<^verbatim>\<open>storj.NodeIDFromString\<close>\<close>
  | EvalError string         \<comment> \<open>an error of the evaluator's own (syntax, unknown name, types)\<close>
  | ErrSyntax string         \<comment> \<open>\<^verbatim>\<open>strconv.Atoi\<close>: invalid syntax, with the input\<close>
  | ErrRange string          \<comment> \<open>\<^verbatim>\<open>strconv.Atoi\<close>: value out of range, with the input\<close>
  | Wrap error               \<comment> \<open>\<^verbatim>\<open>errs.Wrap(err)\<close>\<close>

datatype 'a result = Ok 'a | Err error | Panic panic

subsection \<open>The functions of package strings that the loader calls\<close>

text \<open>
  \<^verbatim>\<open>strings.Split(s, sep)\<close> for a separator of one byte (the loader passes \<^verbatim>\<open>";"\<close>): as
  long as the separator occurs, the piece before its first occurrence is cut off and the
  search goes on behind it; what is left is the last piece. The empty string gives one
  empty piece.
\<close>

function Split :: "string \<Rightarrow> char \<Rightarrow> string list" where
  "Split s sep =
     (if sep \<in> set s
      then takeWhile (\<lambda>c. c \<noteq> sep) s # Split (tl (dropWhile (\<lambda>c. c \<noteq> sep) s)) sep
      else [s])"
  by pat_completeness auto
termination
proof (relation "measure (\<lambda>(s, sep). length s)")
  fix s :: string and sep :: char
  assume "sep \<in> set s"
  then have "dropWhile (\<lambda>c. c \<noteq> sep) s \<noteq> []" by simp
  then have "length (tl (dropWhile (\<lambda>c. c \<noteq> sep) s)) < length (dropWhile (\<lambda>c. c \<noteq> sep) s)"
    by simp
  also have "\<dots> \<le> length s" by (rule length_dropWhile_le)
  finally show "((tl (dropWhile (\<lambda>c. c \<noteq> sep) s), sep), (s, sep)) \<in> measure (\<lambda>(s, sep). length s)"
    by simp
qed simp

declare Split.simps [simp del]

text \<open>
  \<^verbatim>\<open>strings.SplitN(s, sep, n)\<close> for a separator of one byte and \<^verbatim>\<open>n >= 0\<close> (the loader
  passes \<^verbatim>\<open>":"\<close> and 2): at most \<^verbatim>\<open>n\<close> pieces, the last one the unsplit remainder.
\<close>

fun SplitN :: "string \<Rightarrow> char \<Rightarrow> nat \<Rightarrow> string list" where
  "SplitN s sep 0 = []"
| "SplitN s sep (Suc 0) = [s]"
| "SplitN s sep (Suc (Suc n)) =
     (if sep \<in> set s
      then takeWhile (\<lambda>c. c \<noteq> sep) s # SplitN (tl (dropWhile (\<lambda>c. c \<noteq> sep) s)) sep (Suc n)
      else [s])"

text \<open>
  \<^verbatim>\<open>strings.TrimSpace\<close> removes the leading and the trailing white space, as Unicode
  defines it (\<^verbatim>\<open>unicode.IsSpace\<close>), from a UTF-8 string. \<open>spaceWidth\<close> is the number of
  bytes of the white-space rune a string starts with, 0 when it starts with none:
  the six ASCII ones, U+0085, U+00A0, U+1680, U+2000 to U+200A, U+2028, U+2029, U+202F,
  U+205F, U+3000.
\<close>

definition asciiSpace :: "char \<Rightarrow> bool" where
  "asciiSpace c = (c = CHR 0x09 \<or> c = CHR 0x0A \<or> c = CHR 0x0B \<or> c = CHR 0x0C \<or> c = CHR 0x0D
     \<or> c = CHR 0x20)"

fun spaceWidth :: "string \<Rightarrow> nat" where
  "spaceWidth [] = 0"
| "spaceWidth [c] = (if asciiSpace c then 1 else 0)"
| "spaceWidth [c, d] =
     (if asciiSpace c then 1
      else if c = CHR 0xC2 \<and> (d = CHR 0x85 \<or> d = CHR 0xA0) then 2 else 0)"
| "spaceWidth (c # d # e # s) =
     (if asciiSpace c then 1
      else if c = CHR 0xC2 \<and> (d = CHR 0x85 \<or> d = CHR 0xA0) then 2
      else if c = CHR 0xE1 \<and> d = CHR 0x9A \<and> e = CHR 0x80 then 3
      else if c = CHR 0xE2 \<and> d = CHR 0x80
              \<and> ((128::nat) \<le> of_char e \<and> (of_char e :: nat) \<le> 138
                  \<or> e = CHR 0xA8 \<or> e = CHR 0xA9 \<or> e = CHR 0xAF) then 3
      else if c = CHR 0xE2 \<and> d = CHR 0x81 \<and> e = CHR 0x9F then 3
      else if c = CHR 0xE3 \<and> d = CHR 0x80 \<and> e = CHR 0x80 then 3
      else 0)"

text \<open>The same from the end: the bytes of the white-space rune a string ends with.\<close>

definition spaceWidthLast :: "string \<Rightarrow> nat" where
  "spaceWidthLast s =
     (let n = length s in
      if n \<ge> 1 \<and> spaceWidth (drop (n - 1) s) = 1 then 1
      else if n \<ge> 2 \<and> spaceWidth (drop (n - 2) s) = 2 then 2
      else if n \<ge> 3 \<and> spaceWidth (drop (n - 3) s) = 3 then 3
      else 0)"

lemma spaceWidth_le: "spaceWidth s \<le> length s"
  by (induction s rule: spaceWidth.induct) auto

lemma spaceWidthLast_le: "spaceWidthLast s \<le> length s"
  by (auto simp: spaceWidthLast_def Let_def)

function TrimLeftSpace :: "string \<Rightarrow> string" where
  "TrimLeftSpace s = (if spaceWidth s = 0 then s else TrimLeftSpace (drop (spaceWidth s) s))"
  by pat_completeness auto
termination
proof (relation "measure length")
  fix s :: string
  assume "spaceWidth s \<noteq> 0"
  moreover have "spaceWidth s \<le> length s" by (rule spaceWidth_le)
  ultimately show "(drop (spaceWidth s) s, s) \<in> measure length" by simp
qed simp

function TrimRightSpace :: "string \<Rightarrow> string" where
  "TrimRightSpace s =
     (if spaceWidthLast s = 0 then s
      else TrimRightSpace (take (length s - spaceWidthLast s) s))"
  by pat_completeness auto
termination
proof (relation "measure length")
  fix s :: string
  assume "spaceWidthLast s \<noteq> 0"
  moreover have "spaceWidthLast s \<le> length s" by (rule spaceWidthLast_le)
  ultimately show "(take (length s - spaceWidthLast s) s, s) \<in> measure length" by simp
qed simp

declare TrimLeftSpace.simps [simp del] TrimRightSpace.simps [simp del]

definition TrimSpace :: "string \<Rightarrow> string" where
  "TrimSpace s = TrimRightSpace (TrimLeftSpace s)"

text \<open>
  \<^verbatim>\<open>strings.ToLower\<close>, on the ASCII letters. The loader only compares its result with
  the literals \<^verbatim>\<open>all\<close>, \<^verbatim>\<open>*\<close>, \<^verbatim>\<open>any\<close>, \<^verbatim>\<open>none\<close>, \<^verbatim>\<open>eu\<close> and \<^verbatim>\<open>eea\<close>. The only runes
  outside ASCII that Unicode lowers into ASCII are U+0130 (to \<^verbatim>\<open>i\<close>) and U+212A (to \<^verbatim>\<open>k\<close>),
  letters none of the six literals has, so a string with a byte outside ASCII equals none
  of them before or after lowering, under either function.
\<close>

definition toLowerByte :: "char \<Rightarrow> char" where
  "toLowerByte c =
     (if (65::nat) \<le> of_char c \<and> (of_char c :: nat) \<le> 90 then char_of (of_char c + (32::nat)) else c)"

definition ToLower :: "string \<Rightarrow> string" where
  "ToLower s = map toLowerByte s"

subsection \<open>strconv.Atoi\<close>

text \<open>
  An optional sign, then one decimal digit or more and nothing else; the value must fit
  the 64-bit \<^verbatim>\<open>int\<close>. The error carries the input. \<open>ParseUint\<close> is the scan of the
  digits as \<^verbatim>\<open>strconv.ParseUint\<close> does it in base 10 for 64 bits, from the left: a byte
  that is no digit is a syntax error, a value that leaves 64 bits (above
  18446744073709551615) a range error, and the first of them met ends the scan. The
  signed value must lie from -9223372036854775808 to 9223372036854775807.
\<close>

definition isDigit :: "char \<Rightarrow> bool" where
  "isDigit c = ((48::nat) \<le> of_char c \<and> (of_char c :: nat) \<le> 57)"

datatype scan = Scanned int | ScanSyntax | ScanRange

fun ParseUint :: "int \<Rightarrow> string \<Rightarrow> scan" where
  "ParseUint n [] = Scanned n"
| "ParseUint n (c # s) =
     (if \<not> isDigit c then ScanSyntax
      else if 18446744073709551615 div 10 + 1 \<le> n then ScanRange
      else if 18446744073709551615 < n * 10 + (of_char c - 48) then ScanRange
      else ParseUint (n * 10 + (of_char c - 48)) s)"

definition Atoi :: "string \<Rightarrow> int result" where
  "Atoi s =
     (let neg = (s \<noteq> [] \<and> s ! 0 = CHR ''-'');
          body = (if s \<noteq> [] \<and> (s ! 0 = CHR ''-'' \<or> s ! 0 = CHR ''+'') then drop 1 s else s)
      in if body = [] then Err (ErrSyntax s)
         else
           (case ParseUint 0 body of
              ScanSyntax \<Rightarrow> Err (ErrSyntax s)
            | ScanRange \<Rightarrow> Err (ErrRange s)
            | Scanned un \<Rightarrow>
                if \<not> neg \<and> 9223372036854775808 \<le> un then Err (ErrRange s)
                else if neg \<and> 9223372036854775808 < un then Err (ErrRange s)
                else Ok (if neg then - un else un)))"

subsection \<open>Package location: country codes and sets of them\<close>

text \<open>
  Modelled from the spec: package \<^verbatim>\<open>location\<close> (storj.io/common) is not among the sources.
  The spec's CountrySet is "an immutable value built from zero or more codes; supports
  With(codes...) and Without(codes...) producing a new set; a full constructor yields
  the universe of all known codes". The zero value of \<^verbatim>\<open>location.Set\<close> is the empty set.
\<close>

type_synonym location_Set = "CountryCode set"

definition NewSet :: "CountryCode list \<Rightarrow> location_Set" where
  "NewSet codes = set codes"

definition NewFullSet :: "location_Set" where
  "NewFullSet = UNIV"

definition With :: "location_Set \<Rightarrow> CountryCode list \<Rightarrow> location_Set" where
  "With modified code = modified \<union> set code"

definition Without :: "location_Set \<Rightarrow> CountryCode list \<Rightarrow> location_Set" where
  "Without modified code = modified - set code"

definition Contains :: "location_Set \<Rightarrow> CountryCode \<Rightarrow> bool" where
  "Contains s c = (c \<in> s)"

subsection \<open>Package nodeselection: the filters\<close>

text \<open>
  Modelled from the spec: package \<^verbatim>\<open>nodeselection\<close> is not among the sources; the loader
  only constructs its values. \<^verbatim>\<open>NodeFilter\<close> is an interface; the datatype has one
  constructor for each dynamic type the loader can build: \<^verbatim>\<open>AnyFilter{}\<close>,
  \<^verbatim>\<open>ExcludeAllFilter{}\<close>, \<^verbatim>\<open>NewCountryFilter(set)\<close>, \<^verbatim>\<open>NewTagFilter(id, key, value, match)\<close>,
  the slice type \<^verbatim>\<open>NodeFilters\<close>, \<^verbatim>\<open>NewExcludeFilter(f)\<close> and the struct
  \<^verbatim>\<open>AnnotatedNodeFilter\<close>. The nil interface value is not a member: where the code can
  produce it the model has an option type, \<open>None\<close> for nil.
\<close>

type_synonym NodeID = string

datatype match_fn =
    bytes_Equal              \<comment> \<open>\<^verbatim>\<open>bytes.Equal\<close>\<close>
  | not_bytes_Equal          \<comment> \<open>\<^verbatim>\<open>func(a, b []byte) bool { return !bytes.Equal(a, b) }\<close>\<close>

record Annotation =
  Key :: string
  Value :: string

datatype NodeFilter =
    AnyFilter
  | ExcludeAllFilter
  | CountryFilter location_Set
  | TagFilter NodeID string string match_fn
  | NodeFilters "NodeFilter list"
  | ExcludeFilter NodeFilter
  | AnnotatedNodeFilter NodeFilter "Annotation list"

record NodeTag =
  Signer :: NodeID
  Name :: string
  TagValue :: string

record SelectedNode =
  CountryCode :: CountryCode
  Tags :: "NodeTag list"

definition apply_match :: "match_fn \<Rightarrow> string \<Rightarrow> string \<Rightarrow> bool" where
  "apply_match m a b = (case m of bytes_Equal \<Rightarrow> a = b | not_bytes_Equal \<Rightarrow> a \<noteq> b)"

fun tagMatches :: "NodeID \<Rightarrow> string \<Rightarrow> string \<Rightarrow> match_fn \<Rightarrow> NodeTag list \<Rightarrow> bool" where
  "tagMatches signer key v m [] = False"
| "tagMatches signer key v m (t # ts) =
     (if Name t = key \<and> apply_match m (TagValue t) v \<and> Signer t = signer then True
      else tagMatches signer key v m ts)"

text \<open>
  Modelled from the spec: \<^verbatim>\<open>Match\<close> of each variant, section 4.2. AcceptAll: always
  true. DenyAll: always false. CountryMembership(set): true iff the node's country code
  is in the set. TagMatch: true iff the node carries a tag of that key, signed by that
  node id, whose value is equal (or not equal) to the filter's. Conjunction(list): true
  iff every member matches, the empty one as AcceptAll. Negation(f): true iff f does not
  match. Annotated(f, annotations): as f.
\<close>

fun Match :: "NodeFilter \<Rightarrow> SelectedNode \<Rightarrow> bool"
  and MatchEvery :: "NodeFilter list \<Rightarrow> SelectedNode \<Rightarrow> bool" where
  "Match AnyFilter node = True"
| "Match ExcludeAllFilter node = False"
| "Match (CountryFilter permit) node = Contains permit (CountryCode node)"
| "Match (TagFilter signer key v m) node = tagMatches signer key v m (Tags node)"
| "Match (NodeFilters n) node = MatchEvery n node"
| "Match (ExcludeFilter matchToExclude) node = (\<not> Match matchToExclude node)"
| "Match (AnnotatedNodeFilter f annotations) node = Match f node"
| "MatchEvery [] node = True"
| "MatchEvery (f # n) node = (if \<not> Match f node then False else MatchEvery n node)"

subsection \<open>The values of the evaluator and the table of built-in functions\<close>

text \<open>
  The evaluator (github.com/jtolio/mito) works on values of type \<^verbatim>\<open>any\<close>. These are the
  dynamic types the built-in functions take and return; \<open>VNil\<close> is the nil interface.
\<close>

datatype val =
    VNil
  | VFilter NodeFilter
  | VString string
  | VBytes string
  | VStringNotMatch string   \<comment> \<open>\<^verbatim>\<open>type stringNotMatch string\<close>\<close>
  | VInt "64 word"
  | VAnnotation Annotation

text \<open>
  The table \<^verbatim>\<open>env\<close>, one field for each key of the Go map, each with the Go function's
  own parameter and result types. \<open>env_placement\<close> returns an interface value, which may
  be nil: \<open>None\<close>.
\<close>

record env =
  env_country :: "string list \<Rightarrow> NodeFilter list result"
  env_placement :: "64 word \<Rightarrow> NodeFilter option"
  env_all :: "NodeFilter list list \<Rightarrow> NodeFilter list result"
  env_OpAnd :: "val \<Rightarrow> val \<Rightarrow> val result"
  env_tag :: "string \<Rightarrow> string \<Rightarrow> val \<Rightarrow> NodeFilter list result"
  env_annotated :: "NodeFilter \<Rightarrow> Annotation list \<Rightarrow> NodeFilter result"
  env_annotation :: "string \<Rightarrow> string \<Rightarrow> Annotation result"
  env_exclude :: "NodeFilter \<Rightarrow> NodeFilter result"
  env_empty :: "string"
  env_notEmpty :: "val"

text \<open>
  What the loader takes from outside this file: the constants and the table of package
  \<^verbatim>\<open>location\<close>, the two country lists of package \<^verbatim>\<open>nodeselection\<close>,
  \<^verbatim>\<open>storj.NodeIDFromString\<close>, the evaluator \<^verbatim>\<open>mito.Eval\<close> and the text that the verb
  \<^verbatim>\<open>%s\<close> of \<^verbatim>\<open>fmt.Sprintf\<close> prints for a filter. They are parameters of the model.
\<close>

record externals =
  location_None :: CountryCode
  UnitedStates :: CountryCode
  Germany :: CountryCode
  Russia :: CountryCode
  Belarus :: CountryCode
  ToCountryCode :: "string \<Rightarrow> CountryCode"
  EuCountries :: "CountryCode list"
  EeaCountriesWithoutEu :: "CountryCode list"
  NodeIDFromString :: "string \<Rightarrow> NodeID result"
  mito_Eval :: "string \<Rightarrow> env \<Rightarrow> val result"
  Sprintf_s :: "NodeFilter \<Rightarrow> string"

text \<open>
  The placement constraints of package \<^verbatim>\<open>storj\<close> (storj.io/common), not among the
  sources: \<^verbatim>\<open>EveryCountry = 0\<close>, \<^verbatim>\<open>EU = 1\<close>, \<^verbatim>\<open>EEA = 2\<close>, \<^verbatim>\<open>US = 3\<close>, \<^verbatim>\<open>DE = 4\<close>,
  \<^verbatim>\<open>NR = 6\<close>. Modelled from the spec: "identifiers 0-9 are reserved for built-in/legacy
  rules".
\<close>

definition EveryCountry :: PlacementConstraint where "EveryCountry = 0"
definition EU :: PlacementConstraint where "EU = 1"
definition EEA :: PlacementConstraint where "EEA = 2"
definition US :: PlacementConstraint where "US = 3"
definition DE :: PlacementConstraint where "DE = 4"
definition NR :: PlacementConstraint where "NR = 6"

subsection \<open>ConfigurablePlacementRule\<close>

text \<open>
  The struct has one field, a Go map. A Go map may be nil (\<open>None\<close>): reading a nil map
  finds nothing, assigning to it panics.
\<close>

record ConfigurablePlacementRule =
  placements :: "(PlacementConstraint \<rightharpoonup> NodeFilter) option"

definition mapIndex :: "('k \<rightharpoonup> 'v) option \<Rightarrow> 'k \<Rightarrow> 'v option" where
  "mapIndex m k = (case m of None \<Rightarrow> None | Some f \<Rightarrow> f k)"

definition mapAssign :: "('k \<rightharpoonup> 'v) option \<Rightarrow> 'k \<Rightarrow> 'v \<Rightarrow> ('k \<rightharpoonup> 'v) option result" where
  "mapAssign m k v = (case m of None \<Rightarrow> Panic AssignmentToNilMap | Some f \<Rightarrow> Ok (Some (f(k \<mapsto> v))))"

definition NewPlacementRules :: "ConfigurablePlacementRule" where
  "NewPlacementRules = \<lparr>placements = Some [EveryCountry \<mapsto> AnyFilter]\<rparr>"

definition AddLegacyStaticRules ::
  "externals \<Rightarrow> ConfigurablePlacementRule \<Rightarrow> ConfigurablePlacementRule result" where
  "AddLegacyStaticRules x d =
     (case placements d of
        None \<Rightarrow> Panic AssignmentToNilMap
      | Some m \<Rightarrow> Ok (d\<lparr>placements := Some (m
          (EEA \<mapsto> NodeFilters [CountryFilter (With (NewSet (EeaCountriesWithoutEu x)) (EuCountries x))],
           EU \<mapsto> NodeFilters [CountryFilter (NewSet (EuCountries x))],
           US \<mapsto> NodeFilters [CountryFilter (NewSet [UnitedStates x])],
           DE \<mapsto> NodeFilters [CountryFilter (NewSet [Germany x])],
           NR \<mapsto> NodeFilters [CountryFilter
                   (Without NewFullSet [Russia x, Belarus x, location_None x])]))\<rparr>))"

definition AddPlacementRule ::
  "ConfigurablePlacementRule \<Rightarrow> PlacementConstraint \<Rightarrow> NodeFilter
     \<Rightarrow> ConfigurablePlacementRule result" where
  "AddPlacementRule d ident f =
     (case mapAssign (placements d) ident f of
        Ok m \<Rightarrow> Ok (d\<lparr>placements := m\<rparr>)
      | Err e \<Rightarrow> Err e
      | Panic p \<Rightarrow> Panic p)"

text \<open>\<^verbatim>\<open>CreateFilters\<close>: the filter found, or the slice of one \<^verbatim>\<open>ExcludeAllFilter\<close>.\<close>

definition CreateFilters :: "ConfigurablePlacementRule \<Rightarrow> PlacementConstraint \<Rightarrow> NodeFilter" where
  "CreateFilters d constraint =
     (case mapIndex (placements d) constraint of
        Some filters \<Rightarrow> filters
      | None \<Rightarrow> NodeFilters [ExcludeAllFilter])"

subsection \<open>The built-in functions of AddPlacementFromString\<close>

text \<open>
  \<^verbatim>\<open>"country"\<close>. \<open>country_token\<close> is one pass of the loop over the arguments: it reads the
  first byte of the token (a panic on the empty token), picks \<^verbatim>\<open>With\<close> or, after the
  \<^verbatim>\<open>!\<close> it strips, \<^verbatim>\<open>Without\<close> as \<^verbatim>\<open>apply\<close>, and switches on the lowered token.
\<close>

definition country_token :: "externals \<Rightarrow> location_Set \<Rightarrow> string \<Rightarrow> location_Set result" where
  "country_token x cset country =
     (if country = [] then Panic IndexOutOfRange
      else
        let apply = (if country ! 0 = CHR ''!'' then Without else With);
            country1 = (if country ! 0 = CHR ''!'' then drop 1 country else country);
            lower = ToLower country1
        in if lower = ''all'' \<or> lower = ''*'' \<or> lower = ''any'' then Ok NewFullSet
           else if lower = ''none'' then Ok (apply cset [location_None x])
           else if lower = ''eu'' then Ok (apply cset (EuCountries x))
           else if lower = ''eea''
             then Ok (apply (apply cset (EuCountries x)) (EeaCountriesWithoutEu x))
           else
             let code = ToCountryCode x country1
             in if code = location_None x then Err (InvalidCountryCode code)
                else Ok (apply cset [code]))"

fun country_loop :: "externals \<Rightarrow> location_Set \<Rightarrow> string list \<Rightarrow> location_Set result" where
  "country_loop x cset [] = Ok cset"
| "country_loop x cset (country # countries) =
     (case country_token x cset country of
        Ok cset1 \<Rightarrow> country_loop x cset1 countries
      | Err e \<Rightarrow> Err e
      | Panic p \<Rightarrow> Panic p)"

definition country :: "externals \<Rightarrow> string list \<Rightarrow> NodeFilter list result" where
  "country x countries =
     (case country_loop x {} countries of
        Ok cset \<Rightarrow> Ok [CountryFilter cset]
      | Err e \<Rightarrow> Err e
      | Panic p \<Rightarrow> Panic p)"

text \<open>
  \<^verbatim>\<open>"placement"\<close>: the plain map index \<^verbatim>\<open>d.placements[storj.PlacementConstraint(ix)]\<close>, the
  \<^verbatim>\<open>int64\<close> cut to 16 bits. For a key the map does not have, a Go map index gives the zero
  value of the element type, here the nil interface.
\<close>

definition placement :: "ConfigurablePlacementRule \<Rightarrow> 64 word \<Rightarrow> NodeFilter option" where
  "placement d ix = mapIndex (placements d) (ucast ix)"

text \<open>\<^verbatim>\<open>"all"\<close>: appends the members of every argument to one slice.\<close>

definition all_filters :: "NodeFilter list list \<Rightarrow> NodeFilter list result" where
  "all_filters filters = Ok (foldl (\<lambda>res filter. res @ filter) [] filters)"

text \<open>\<^verbatim>\<open>mito.OpAnd\<close>: both operands must hold a \<^verbatim>\<open>NodeFilter\<close>; the result is the slice of the two.\<close>

definition OpAnd :: "val \<Rightarrow> val \<Rightarrow> val result" where
  "OpAnd a b =
     (case a of
        VFilter filter1 \<Rightarrow>
          (case b of
             VFilter filter2 \<Rightarrow> Ok (VFilter (NodeFilters [filter1, filter2]))
           | _ \<Rightarrow> Err AndOnlyBetweenNodeFilters)
      | _ \<Rightarrow> Err AndOnlyBetweenNodeFilters)"

definition tag :: "externals \<Rightarrow> string \<Rightarrow> string \<Rightarrow> val \<Rightarrow> NodeFilter list result" where
  "tag x nodeIDstr key v =
     (case NodeIDFromString x nodeIDstr of
        Err e \<Rightarrow> Err e
      | Panic p \<Rightarrow> Panic p
      | Ok nodeID \<Rightarrow>
          (case v of
             VString sv \<Rightarrow> Ok [TagFilter nodeID key sv bytes_Equal]
           | VBytes bv \<Rightarrow> Ok [TagFilter nodeID key bv bytes_Equal]
           | VStringNotMatch nv \<Rightarrow> Ok [TagFilter nodeID key nv not_bytes_Equal]
           | _ \<Rightarrow> Err TagThirdArgument))"

definition annotated :: "NodeFilter \<Rightarrow> Annotation list \<Rightarrow> NodeFilter result" where
  "annotated f kv = Ok (AnnotatedNodeFilter f kv)"

definition annotation :: "string \<Rightarrow> string \<Rightarrow> Annotation result" where
  "annotation k v = Ok \<lparr>Key = k, Value = v\<rparr>"

definition exclude :: "NodeFilter \<Rightarrow> NodeFilter result" where
  "exclude f = Ok (ExcludeFilter f)"

text \<open>
  The table. The Go closures hold the pointer \<^verbatim>\<open>d\<close> and read the map when they are
  called; the model builds the table from the registry as it is at the call.
\<close>

definition build_env :: "externals \<Rightarrow> ConfigurablePlacementRule \<Rightarrow> env" where
  "build_env x d =
     \<lparr>env_country = country x,
      env_placement = placement d,
      env_all = all_filters,
      env_OpAnd = OpAnd,
      env_tag = tag x,
      env_annotated = annotated,
      env_annotation = annotation,
      env_exclude = exclude,
      env_empty = [],
      env_notEmpty = VStringNotMatch []\<rparr>"

subsection \<open>AddPlacementFromString\<close>

text \<open>
  One pass of the loop over the pieces of the definition string, then the rest. The
  registry is returned with the outcome, since the Go method writes through the pointer:
  what was stored before an error or a panic stays stored. \<open>Ok ()\<close> is the nil error.
\<close>

fun AddPlacementFromString_loop ::
  "externals \<Rightarrow> ConfigurablePlacementRule \<Rightarrow> string list \<Rightarrow> ConfigurablePlacementRule \<times> unit result"
where
  "AddPlacementFromString_loop x d [] = (d, Ok ())"
| "AddPlacementFromString_loop x d (definition0 # rest) =
     (let definition1 = TrimSpace definition0
      in if definition1 = [] then AddPlacementFromString_loop x d rest
         else
           let idDef = SplitN definition1 (CHR '':'') 2
           in if length idDef \<le> 1 then (d, Panic IndexOutOfRange)
              else
                (case mito_Eval x (idDef ! 1) (build_env x d) of
                   Err e \<Rightarrow> (d, Err (Wrap e))
                 | Panic p \<Rightarrow> (d, Panic p)
                 | Ok v \<Rightarrow>
                     (case Atoi (idDef ! 0) of
                        Err e \<Rightarrow> (d, Err (Wrap e))
                      | Panic p \<Rightarrow> (d, Panic p)
                      | Ok ident \<Rightarrow>
                          (case v of
                             VFilter f \<Rightarrow>
                               (case mapAssign (placements d) (word_of_int ident) f of
                                  Ok m \<Rightarrow> AddPlacementFromString_loop x (d\<lparr>placements := m\<rparr>) rest
                                | Err e \<Rightarrow> (d, Err e)
                                | Panic p \<Rightarrow> (d, Panic p))
                           | _ \<Rightarrow> (d, Panic InterfaceConversion)))))"

definition AddPlacementFromString ::
  "externals \<Rightarrow> ConfigurablePlacementRule \<Rightarrow> string \<Rightarrow> ConfigurablePlacementRule \<times> unit result" where
  "AddPlacementFromString x d definitions =
     AddPlacementFromString_loop x d (Split definitions (CHR '';''))"

text \<open>\<^verbatim>\<open>Set\<close> of \<^verbatim>\<open>pflag.Value\<close>: makes the map when it is nil, adds the legacy rules, loads.\<close>

definition Set_flag ::
  "externals \<Rightarrow> ConfigurablePlacementRule \<Rightarrow> string \<Rightarrow> ConfigurablePlacementRule \<times> unit result" where
  "Set_flag x d s =
     (let d1 = (if placements d = None then d\<lparr>placements := Some [EveryCountry \<mapsto> AnyFilter]\<rparr> else d)
      in case AddLegacyStaticRules x d1 of
           Ok d2 \<Rightarrow> AddPlacementFromString x d2 s
         | Err e \<Rightarrow> (d1, Err e)
         | Panic p \<Rightarrow> (d1, Panic p))"

subsection \<open>String\<close>

text \<open>
  \<^verbatim>\<open>fmt.Sprintf("%d:%s", id, filter)\<close>: the identifier in decimal, a colon, the filter as
  \<^verbatim>\<open>%s\<close> prints it. \<^verbatim>\<open>strings.Join\<close> puts the separator between the parts.
\<close>

function FormatUint :: "nat \<Rightarrow> string" where
  "FormatUint n =
     (if n < 10 then [''0123456789'' ! n]
      else FormatUint (n div 10) @ [''0123456789'' ! (n mod 10)])"
  by pat_completeness auto
termination
  by (relation "measure (\<lambda>n. n)") auto

declare FormatUint.simps [simp del]

definition Sprintf_d_s :: "externals \<Rightarrow> PlacementConstraint \<Rightarrow> NodeFilter \<Rightarrow> string" where
  "Sprintf_d_s x ident f = FormatUint (unat ident) @ '':'' @ Sprintf_s x f"

fun Join :: "string list \<Rightarrow> string \<Rightarrow> string" where
  "Join [] sep = []"
| "Join [a] sep = a"
| "Join (a # b # elems) sep = a @ sep @ Join (b # elems) sep"

text \<open>
  Go visits the entries of a map in an order it does not specify. \<open>range_of m kvs\<close> says
  that \<open>kvs\<close> is one such visit of the map \<open>m\<close>: every entry once. \<open>String\<close> takes the
  visit the runtime makes.
\<close>

definition range_of ::
  "(PlacementConstraint \<rightharpoonup> NodeFilter) option \<Rightarrow> (PlacementConstraint \<times> NodeFilter) list \<Rightarrow> bool" where
  "range_of m kvs = (distinct (map fst kvs) \<and> mapIndex m = map_of kvs)"

fun String_parts ::
  "externals \<Rightarrow> string list \<Rightarrow> (PlacementConstraint \<times> NodeFilter) list \<Rightarrow> string list" where
  "String_parts x parts [] = parts"
| "String_parts x parts ((ident, f) # kvs) =
     (if 9 < ident then String_parts x (parts @ [Sprintf_d_s x ident f]) kvs
      else String_parts x parts kvs)"

definition String :: "externals \<Rightarrow> (PlacementConstraint \<times> NodeFilter) list \<Rightarrow> string" where
  "String x kvs = Join (String_parts x [] kvs) '';''"

subsection \<open>A sample of the outside\<close>

text \<open>
  Concrete values for the parameters, to run the model on: six country codes, the two
  letters of each read without regard to case, and an evaluator that knows three
  expressions and calls the built-in function each one names.
\<close>

definition sample_ToCountryCode :: "string \<Rightarrow> CountryCode" where
  "sample_ToCountryCode s =
     (let u = ToLower s
      in if u = ''us'' then 1 else if u = ''de'' then 2 else if u = ''ru'' then 3
         else if u = ''by'' then 4 else if u = ''fr'' then 5 else if u = ''no'' then 6 else 0)"

definition sample_Eval :: "string \<Rightarrow> env \<Rightarrow> val result" where
  \<open>sample_Eval expr e =
     (if expr = ''country("us")'' then
        (case env_country e [''us''] of
           Ok fs \<Rightarrow> Ok (VFilter (NodeFilters fs)) | Err er \<Rightarrow> Err er | Panic p \<Rightarrow> Panic p)
      else if expr = ''country("de")'' then
        (case env_country e [''de''] of
           Ok fs \<Rightarrow> Ok (VFilter (NodeFilters fs)) | Err er \<Rightarrow> Err er | Panic p \<Rightarrow> Panic p)
      else if expr = ''placement(10)'' then
        (case env_placement e 10 of None \<Rightarrow> Ok VNil | Some f \<Rightarrow> Ok (VFilter f))
      else Err (EvalError expr))\<close>

definition sample_ext :: externals where
  "sample_ext =
     \<lparr>location_None = 0, UnitedStates = 1, Germany = 2, Russia = 3, Belarus = 4,
      ToCountryCode = sample_ToCountryCode,
      EuCountries = [2, 5],
      EeaCountriesWithoutEu = [6],
      NodeIDFromString = (\<lambda>s. if length s = 32 then Ok s else Err (NodeIDError s)),
      mito_Eval = sample_Eval,
      Sprintf_s = (\<lambda>f. ''filter'')\<rparr>"


definition sample_legacy :: "(PlacementConstraint \<times> NodeFilter) list" where
  "sample_legacy =
     [(NR, NodeFilters [CountryFilter (Without NewFullSet [3, 4, 0])]),
      (DE, NodeFilters [CountryFilter (NewSet [2])]),
      (US, NodeFilters [CountryFilter (NewSet [1])]),
      (EU, NodeFilters [CountryFilter (NewSet [2, 5])]),
      (EEA, NodeFilters [CountryFilter (With (NewSet [6]) [2, 5])]),
      (EveryCountry, AnyFilter)]"

definition sample_visit :: "(PlacementConstraint \<times> NodeFilter) list" where
  "sample_visit =
     [(10, NodeFilters [CountryFilter {1}]),
      (NR, NodeFilters [CountryFilter (Without NewFullSet [3, 4, 0])]),
      (DE, NodeFilters [CountryFilter (NewSet [2])]),
      (300, NodeFilters [CountryFilter {2}]),
      (US, NodeFilters [CountryFilter (NewSet [1])]),
      (EU, NodeFilters [CountryFilter (NewSet [2, 5])]),
      (EEA, NodeFilters [CountryFilter (With (NewSet [6]) [2, 5])]),
      (EveryCountry, AnyFilter)]"

subsection \<open>Vocabulary for the properties of the country tokens\<close>

text \<open>
  Read off the switch of \<^verbatim>\<open>"country"\<close>: the tokens that set the full set; the codes that
  any other token names, or the error when it names none; the token without the one
  \<^verbatim>\<open>!\<close> the loop strips; and the tokens the switch accepts.
\<close>

definition full_set_token :: "string \<Rightarrow> bool" where
  "full_set_token t = (ToLower t = ''all'' \<or> ToLower t = ''*'' \<or> ToLower t = ''any'')"

definition token_codes :: "externals \<Rightarrow> string \<Rightarrow> CountryCode list result" where
  "token_codes x t =
     (let lower = ToLower t
      in if lower = ''none'' then Ok [location_None x]
         else if lower = ''eu'' then Ok (EuCountries x)
         else if lower = ''eea'' then Ok (EuCountries x @ EeaCountriesWithoutEu x)
         else if ToCountryCode x t = location_None x
           then Err (InvalidCountryCode (ToCountryCode x t))
         else Ok [ToCountryCode x t])"

definition strip_negation :: "string \<Rightarrow> string" where
  "strip_negation t = (if t \<noteq> [] \<and> t ! 0 = CHR ''!'' then drop 1 t else t)"

definition token_known :: "externals \<Rightarrow> string \<Rightarrow> bool" where
  "token_known x t =
     (full_set_token (strip_negation t) \<or>
      (case token_codes x (strip_negation t) of Ok codes \<Rightarrow> True | _ \<Rightarrow> False))"

section \<open>Lemmas\<close>

subsection \<open>Strings\<close>

lemma set_TrimLeftSpace: "set (TrimLeftSpace s) \<subseteq> set s"
proof (induction s rule: TrimLeftSpace.induct)
  case (1 s)
  show ?case
  proof (cases "spaceWidth s = 0")
    case True
    then show ?thesis by (simp add: TrimLeftSpace.simps [of s])
  next
    case False
    have "set (TrimLeftSpace (drop (spaceWidth s) s)) \<subseteq> set (drop (spaceWidth s) s)"
      using 1 False by simp
    also have "\<dots> \<subseteq> set s" by (rule set_drop_subset)
    finally show ?thesis using False by (simp add: TrimLeftSpace.simps [of s])
  qed
qed

lemma set_TrimRightSpace: "set (TrimRightSpace s) \<subseteq> set s"
proof (induction s rule: TrimRightSpace.induct)
  case (1 s)
  show ?case
  proof (cases "spaceWidthLast s = 0")
    case True
    then show ?thesis by (simp add: TrimRightSpace.simps [of s])
  next
    case False
    have "set (TrimRightSpace (take (length s - spaceWidthLast s) s))
            \<subseteq> set (take (length s - spaceWidthLast s) s)"
      using 1 False by simp
    also have "\<dots> \<subseteq> set s" by (rule set_take_subset)
    finally show ?thesis using False by (simp add: TrimRightSpace.simps [of s])
  qed
qed

lemma set_TrimSpace: "set (TrimSpace s) \<subseteq> set s"
  unfolding TrimSpace_def using set_TrimRightSpace set_TrimLeftSpace by blast

lemma SplitN_2_no_sep: "sep \<notin> set s \<Longrightarrow> SplitN s sep 2 = [s]"
  by (simp add: numeral_2_eq_2)

lemma FormatUint_10: "FormatUint 10 = ''10''"
  by (simp add: FormatUint.simps)

subsection \<open>The map and the filters\<close>

lemma mapIndex_Some: "mapIndex (Some m) = m"
  by (rule ext) (simp add: mapIndex_def)

lemma range_of_set:
  "range_of m kvs \<Longrightarrow> ((i, f) \<in> set kvs) = (mapIndex m i = Some f)"
  by (simp add: range_of_def)

lemma foldl_append_concat: "foldl (\<lambda>res filter. res @ filter) acc fss = acc @ concat fss"
  by (induction fss arbitrary: acc) simp_all

lemma all_filters_concat: "all_filters fss = Ok (concat fss)"
  by (simp add: all_filters_def foldl_append_concat)

lemma MatchEvery_append: "MatchEvery (as @ bs) node = (MatchEvery as node \<and> MatchEvery bs node)"
  by (induction as) auto

lemma NodeFilters_pair_neq: "NodeFilters [A, B] \<noteq> A"
proof
  assume "NodeFilters [A, B] = A"
  then have "size (NodeFilters [A, B]) = size A" by simp
  then show False by simp
qed

subsection \<open>The loop of the loader\<close>

lemma loop_append:
  "AddPlacementFromString_loop x d (pre @ rest) =
     (case AddPlacementFromString_loop x d pre of
        (d1, Ok u) \<Rightarrow> AddPlacementFromString_loop x d1 rest
      | (d1, Err e) \<Rightarrow> (d1, Err e)
      | (d1, Panic p) \<Rightarrow> (d1, Panic p))"
proof (induction pre arbitrary: d)
  case Nil
  show ?case by simp
next
  case (Cons a pre)
  show ?case
    by (simp add: Let_def Cons.IH split: result.splits val.splits prod.splits)
qed

lemma loop_colon_free:
  assumes "TrimSpace entry \<noteq> []" and "CHR '':'' \<notin> set entry"
  shows "AddPlacementFromString_loop x d (entry # post) = (d, Panic IndexOutOfRange)"
proof -
  have "CHR '':'' \<notin> set (TrimSpace entry)"
    using assms(2) set_TrimSpace by blast
  then have "SplitN (TrimSpace entry) (CHR '':'') 2 = [TrimSpace entry]"
    by (rule SplitN_2_no_sep)
  then show ?thesis using assms(1) by (simp add: Let_def)
qed



subsection \<open>The loop of country\<close>

lemma country_loop_append:
  "country_loop x s (pre @ rest) =
     (case country_loop x s pre of
        Ok s1 \<Rightarrow> country_loop x s1 rest
      | Err e \<Rightarrow> Err e
      | Panic p \<Rightarrow> Panic p)"
  by (induction pre arbitrary: s) (auto split: result.splits)

lemma country_token_empty: "country_token x s [] = Panic IndexOutOfRange"
  by (simp add: country_token_def)

lemma country_token_plain:
  assumes "t \<noteq> []" and "t ! 0 \<noteq> CHR ''!''" and "\<not> full_set_token t"
  shows "country_token x s t =
     (case token_codes x t of
        Ok codes \<Rightarrow> Ok (With s codes) | Err e \<Rightarrow> Err e | Panic p \<Rightarrow> Panic p)"
  using assms
  by (auto simp: country_token_def token_codes_def full_set_token_def Let_def With_def)

lemma country_token_negated:
  assumes "\<not> full_set_token t"
  shows "country_token x s (CHR ''!'' # t) =
     (case token_codes x t of
        Ok codes \<Rightarrow> Ok (Without s codes) | Err e \<Rightarrow> Err e | Panic p \<Rightarrow> Panic p)"
  using assms
  by (auto simp: country_token_def token_codes_def full_set_token_def Let_def Without_def)

lemma country_token_full:
  assumes "full_set_token t" and "t ! 0 \<noteq> CHR ''!''"
  shows "country_token x s t = Ok NewFullSet"
    and "country_token x s (CHR ''!'' # t) = Ok NewFullSet"
  using assms
  by (auto simp: country_token_def full_set_token_def Let_def ToLower_def)

lemma country_token_known:
  assumes "t \<noteq> []" and "token_known x t"
  shows "\<exists>s1. country_token x s t = Ok s1"
  using assms
  by (auto simp: country_token_def token_known_def token_codes_def full_set_token_def
      strip_negation_def Let_def split: if_splits)

lemma country_token_unknown:
  assumes "t \<noteq> []" and "\<not> token_known x t"
  shows "\<exists>c. country_token x s t = Err (InvalidCountryCode c)"
  using assms
  by (auto simp: country_token_def token_known_def token_codes_def full_set_token_def
      strip_negation_def Let_def split: if_splits)

lemma country_loop_known:
  "[] \<notin> set ts \<Longrightarrow> \<forall>t\<in>set ts. token_known x t \<Longrightarrow> \<exists>s1. country_loop x s ts = Ok s1"
proof (induction ts arbitrary: s)
  case Nil
  show ?case by simp
next
  case (Cons t ts)
  from Cons.prems have "t \<noteq> []" and "token_known x t" by auto
  then obtain s1 where "country_token x s t = Ok s1"
    using country_token_known by blast
  moreover have "\<exists>s2. country_loop x s1 ts = Ok s2"
    using Cons.IH Cons.prems by auto
  ultimately show ?case by simp
qed

lemma country_loop_unknown:
  "[] \<notin> set ts \<Longrightarrow> \<exists>t\<in>set ts. \<not> token_known x t \<Longrightarrow>
   \<exists>c. country_loop x s ts = Err (InvalidCountryCode c)"
proof (induction ts arbitrary: s)
  case Nil
  then show ?case by simp
next
  case (Cons t ts)
  from Cons.prems have ne: "t \<noteq> []" by auto
  show ?case
  proof (cases "token_known x t")
    case True
    then obtain s1 where s1: "country_token x s t = Ok s1"
      using country_token_known ne by blast
    from True Cons.prems have "\<exists>u\<in>set ts. \<not> token_known x u" by auto
    then have "\<exists>c. country_loop x s1 ts = Err (InvalidCountryCode c)"
      using Cons.IH Cons.prems by auto
    with s1 show ?thesis by simp
  next
    case False
    then obtain c where "country_token x s t = Err (InvalidCountryCode c)"
      using country_token_unknown ne by blast
    then show ?thesis by simp
  qed
qed

subsection \<open>The loop of String\<close>

lemma String_parts_acc:
  "String_parts x parts kvs =
     parts @ map (\<lambda>(i, f). Sprintf_d_s x i f) (filter (\<lambda>(i, f). 9 < i) kvs)"
  by (induction kvs arbitrary: parts) auto

lemma filter_none_above:
  "\<forall>(i, f)\<in>set kvs. i \<le> (9 :: PlacementConstraint) \<Longrightarrow> filter (\<lambda>(i, f). 9 < i) kvs = []"
  by (induction kvs) (auto simp: not_less)

lemma filter_one_above:
  "distinct (map fst kvs) \<Longrightarrow> (k, v) \<in> set kvs \<Longrightarrow> 9 < k \<Longrightarrow>
   \<forall>(i, g)\<in>set kvs. i = k \<or> i \<le> (9 :: PlacementConstraint) \<Longrightarrow>
   filter (\<lambda>(i, f). 9 < i) kvs = [(k, v)]"
proof (induction kvs)
  case Nil
  then show ?case by simp
next
  case (Cons a kvs)
  obtain j w where a: "a = (j, w)" by (cases a)
  have dist: "distinct (map fst kvs)" and jnot: "j \<notin> fst ` set kvs"
    using Cons.prems(1) a by auto
  have rest: "\<forall>(i, g)\<in>set kvs. i = k \<or> i \<le> 9"
    using Cons.prems(4) by auto
  show ?case
  proof (cases "j = k")
    case True
    have "(k, v) \<notin> set kvs" using jnot True by force
    then have w: "w = v" using Cons.prems(2) a True by auto
    have "\<forall>(i, f)\<in>set kvs. i \<le> 9"
      using rest jnot True by force
    then have "filter (\<lambda>(i, f). 9 < i) kvs = []" by (rule filter_none_above)
    then show ?thesis using True w a Cons.prems(3) by simp
  next
    case False
    then have mk: "(k, v) \<in> set kvs" using Cons.prems(2) a by auto
    have "j \<le> 9" using Cons.prems(4) False a by auto
    moreover have "filter (\<lambda>(i, f). 9 < i) kvs = [(k, v)]"
      using Cons.IH dist mk Cons.prems(3) rest by blast
    ultimately show ?thesis using a by (simp add: not_less)
  qed
qed

lemma Join_explicit:
  "Join (a # elems) sep = a @ concat (map (\<lambda>b. sep @ b) elems)"
  by (induction elems arbitrary: a) simp_all

lemma digit_char:
  assumes "m < 10"
  shows "of_char (''0123456789'' ! m) = 48 + m"
proof -
  from assms have "m = 0 \<or> m = 1 \<or> m = 2 \<or> m = 3 \<or> m = 4 \<or> m = 5 \<or> m = 6 \<or> m = 7 \<or> m = 8 \<or> m = 9"
    by arith
  then show ?thesis by (elim disjE) simp_all
qed

lemma FormatUint_not_empty: "FormatUint n \<noteq> []"
  by (subst FormatUint.simps) simp

lemma FormatUint_digits: "list_all isDigit (FormatUint n)"
proof (induction n rule: FormatUint.induct)
  case (1 n)
  have d: "\<And>m. m < 10 \<Longrightarrow> isDigit (''0123456789'' ! m)"
    using digit_char by (simp add: isDigit_def)
  show ?case
  proof (cases "n < 10")
    case True
    then show ?thesis using d by (subst FormatUint.simps) simp
  next
    case False
    then have "list_all isDigit (FormatUint (n div 10))" using 1 by simp
    moreover have "isDigit (''0123456789'' ! (n mod 10))" by (rule d) simp
    ultimately show ?thesis using False by (subst FormatUint.simps) simp
  qed
qed

lemma FormatUint_value:
  "foldl (\<lambda>a c. a * 10 + (of_char c - 48)) 0 (FormatUint n) = n"
proof (induction n rule: FormatUint.induct)
  case (1 n)
  show ?case
  proof (cases "n < 10")
    case True
    then show ?thesis using digit_char [of n] by (subst FormatUint.simps) simp
  next
    case False
    then have "foldl (\<lambda>a c. a * 10 + (of_char c - 48)) 0 (FormatUint (n div 10)) = n div 10"
      using 1 by simp
    moreover have "of_char (''0123456789'' ! (n mod 10)) = 48 + n mod 10"
      by (rule digit_char) simp
    ultimately show ?thesis using False by (subst FormatUint.simps) simp
  qed
qed

lemma FormatUint_no_leading_zero: "0 < n \<Longrightarrow> hd (FormatUint n) \<noteq> CHR ''0''"
proof (induction n rule: FormatUint.induct)
  case (1 n)
  show ?case
  proof (cases "n < 10")
    case True
    have "(of_char (''0123456789'' ! n) :: nat) = 48 + n" using True by (rule digit_char)
    then have "''0123456789'' ! n \<noteq> CHR ''0''" using "1.prems" by auto
    then show ?thesis using True by (subst FormatUint.simps) simp
  next
    case False
    then have "hd (FormatUint (n div 10)) \<noteq> CHR ''0''" using 1 by simp
    then show ?thesis using False FormatUint_not_empty [of "n div 10"]
      by (subst FormatUint.simps) simp
  qed
qed

subsection \<open>Runs on the sample\<close>

lemma TrimSpace_us: \<open>TrimSpace ''10:country("us")'' = ''10:country("us")''\<close>
  by code_simp


lemma TrimSpace_fwd: \<open>TrimSpace ''11:placement(10)'' = ''11:placement(10)''\<close>
  by code_simp

lemma SplitN_us: \<open>SplitN ''10:country("us")'' (CHR '':'') 2 = [''10'', ''country("us")'']\<close>
  by code_simp


lemma SplitN_fwd: \<open>SplitN ''11:placement(10)'' (CHR '':'') 2 = [''11'', ''placement(10)'']\<close>
  by code_simp

lemma Atoi_10: "Atoi ''10'' = Ok 10"
  by code_simp

lemma Atoi_11: "Atoi ''11'' = Ok 11"
  by code_simp


lemma sample_country_us: "country sample_ext [''us''] = Ok [CountryFilter {1}]"
  by (simp add: country_def country_token_def sample_ext_def sample_ToCountryCode_def
      ToLower_def toLowerByte_def With_def Let_def)

lemma sample_Eval_us:
  \<open>mito_Eval sample_ext ''country("us")'' (build_env sample_ext d) =
     Ok (VFilter (NodeFilters [CountryFilter {1}]))\<close>
  using sample_country_us
  by (simp add: sample_ext_def sample_Eval_def build_env_def)

lemma sample_Eval_fwd:
  \<open>mito_Eval sample_ext ''placement(10)'' (build_env sample_ext d) =
     (case placement d 10 of None \<Rightarrow> Ok VNil | Some f \<Rightarrow> Ok (VFilter f))\<close>
  by (simp add: sample_ext_def sample_Eval_def build_env_def)



lemma load_us_on:
  assumes "placements d = Some m"
  shows \<open>AddPlacementFromString sample_ext d ''10:country("us")'' =
     (d\<lparr>placements := Some (m(10 \<mapsto> NodeFilters [CountryFilter {1}]))\<rparr>, Ok ())\<close>
proof -
  have \<open>Split ''10:country("us")'' (CHR '';'') = [''10:country("us")'']\<close> by code_simp
  then show ?thesis
    using assms
    by (simp add: AddPlacementFromString_def TrimSpace_us SplitN_us sample_Eval_us Atoi_10
        mapAssign_def)
qed

lemma TrimSpace_300: \<open>TrimSpace ''300:country("de")'' = ''300:country("de")''\<close>
  by code_simp

lemma SplitN_300: \<open>SplitN ''300:country("de")'' (CHR '':'') 2 = [''300'', ''country("de")'']\<close>
  by code_simp

lemma Atoi_300: "Atoi ''300'' = Ok 300"
  by code_simp

lemma sample_country_de: "country sample_ext [''de''] = Ok [CountryFilter {2}]"
  by (simp add: country_def country_token_def sample_ext_def sample_ToCountryCode_def
      ToLower_def toLowerByte_def With_def Let_def)

lemma sample_Eval_de:
  \<open>mito_Eval sample_ext ''country("de")'' (build_env sample_ext d) =
     Ok (VFilter (NodeFilters [CountryFilter {2}]))\<close>
  using sample_country_de
  by (simp add: sample_ext_def sample_Eval_def build_env_def)

lemma load_us_de_on:
  assumes "placements d = Some m"
  shows \<open>AddPlacementFromString sample_ext d ''10:country("us");300:country("de")'' =
     (d\<lparr>placements := Some (m(10 \<mapsto> NodeFilters [CountryFilter {1}],
                                300 \<mapsto> NodeFilters [CountryFilter {2}]))\<rparr>, Ok ())\<close>
proof -
  have \<open>Split ''10:country("us");300:country("de")'' (CHR '';'') =
      [''10:country("us")'', ''300:country("de")'']\<close>
    by code_simp
  then show ?thesis
    using assms
    by (simp add: AddPlacementFromString_def TrimSpace_us SplitN_us sample_Eval_us Atoi_10
        TrimSpace_300 SplitN_300 sample_Eval_de Atoi_300 mapAssign_def)
qed

lemma FormatUint_300: "FormatUint 300 = ''300''"
  by (simp add: FormatUint.simps)

lemma known_us: "token_known sample_ext ''us''"
  by (simp add: token_known_def strip_negation_def full_set_token_def token_codes_def
      sample_ext_def sample_ToCountryCode_def ToLower_def toLowerByte_def Let_def)

lemma known_neg_eu: "token_known sample_ext ''!eu''"
  by (simp add: token_known_def strip_negation_def full_set_token_def token_codes_def
      sample_ext_def sample_ToCountryCode_def ToLower_def toLowerByte_def Let_def)

lemma unknown_zz: "\<not> token_known sample_ext ''zz''"
  by (simp add: token_known_def strip_negation_def full_set_token_def token_codes_def
      sample_ext_def sample_ToCountryCode_def ToLower_def toLowerByte_def Let_def)

lemma codes_eu: "token_codes sample_ext ''eu'' = Ok [2, 5]"
  by (simp add: token_codes_def sample_ext_def ToLower_def toLowerByte_def Let_def)

lemma loop_us_de: "country_loop sample_ext {} [''us'', ''de''] = Ok {1, 2}"
  by (auto simp add: country_token_def sample_ext_def sample_ToCountryCode_def
      ToLower_def toLowerByte_def With_def Let_def)

lemma loop_fr: "country_loop sample_ext ({1, 2} - {2, 5}) [''fr''] = Ok {1, 5}"
  by (auto simp add: country_token_def sample_ext_def sample_ToCountryCode_def
      ToLower_def toLowerByte_def With_def Let_def)

section \<open>The claims\<close>

text \<open>
  C1. The claim: in a rule definition being loaded, \<^verbatim>\<open>placement(id)\<close> for an identifier
  that is not registered yet gives the registry's default, the filter that matches no
  node, and neither an error nor a nil value; so a reference to an identifier defined
  later in the same string resolves to that filter.
  The code at this input: on the registry of \<^verbatim>\<open>NewPlacementRules\<close>, the built-in function
  gives nil for 10, where \<^verbatim>\<open>CreateFilters\<close> gives the slice of one \<^verbatim>\<open>ExcludeAllFilter\<close>;
  and loading \<^verbatim>\<open>11:placement(10);10:country("us")\<close> panics in the type assertion on the
  nil value, with nothing registered.
\<close>

theorem placement_unregistered_is_nil:
  \<open>placement NewPlacementRules 10 = None \<and>
   CreateFilters NewPlacementRules 10 = NodeFilters [ExcludeAllFilter] \<and>
   AddPlacementFromString sample_ext NewPlacementRules ''11:placement(10);10:country("us")'' =
     (NewPlacementRules, Panic InterfaceConversion)\<close>
proof -
  have p: "placement NewPlacementRules 10 = None"
    by (simp add: placement_def mapIndex_def NewPlacementRules_def EveryCountry_def)
  have c: "CreateFilters NewPlacementRules 10 = NodeFilters [ExcludeAllFilter]"
    by (simp add: CreateFilters_def mapIndex_def NewPlacementRules_def EveryCountry_def)
  have s: \<open>Split ''11:placement(10);10:country("us")'' (CHR '';'') =
      [''11:placement(10)'', ''10:country("us")'']\<close>
    by code_simp
  have l: \<open>AddPlacementFromString_loop sample_ext NewPlacementRules
      [''11:placement(10)'', ''10:country("us")''] = (NewPlacementRules, Panic InterfaceConversion)\<close>
    by (simp add: TrimSpace_fwd SplitN_fwd sample_Eval_fwd p Atoi_11)
  show ?thesis using p c s l by (simp add: AddPlacementFromString_def)
qed

text \<open>
  C2. For every placement constraint \<^verbatim>\<open>CreateFilters\<close> returns a filter, with no error
  and no panic (a nil map included): the registered filter when the constraint is
  registered, and otherwise the slice of one \<^verbatim>\<open>ExcludeAllFilter\<close>, which matches no node,
  whatever the node's attributes.
\<close>

theorem CreateFilters_registered_or_deny_all:
  "(\<forall>f. mapIndex (placements d) constraint = Some f \<longrightarrow> CreateFilters d constraint = f) \<and>
   (mapIndex (placements d) constraint = None \<longrightarrow>
      CreateFilters d constraint = NodeFilters [ExcludeAllFilter] \<and>
      (\<forall>node. \<not> Match (CreateFilters d constraint) node))"
  by (simp add: CreateFilters_def)

theorem CreateFilters_registered_or_deny_all_witness:
  "mapIndex (placements NewPlacementRules) 999 = None \<and>
   CreateFilters NewPlacementRules 999 = NodeFilters [ExcludeAllFilter] \<and>
   (\<forall>node. \<not> Match (CreateFilters NewPlacementRules 999) node) \<and>
   mapIndex (placements NewPlacementRules) 0 = Some AnyFilter \<and>
   CreateFilters NewPlacementRules 0 = AnyFilter \<and>
   mapIndex (placements \<lparr>placements = None\<rparr>) 0 = None \<and>
   CreateFilters \<lparr>placements = None\<rparr> 0 = NodeFilters [ExcludeAllFilter]"
proof -
  have a: "mapIndex (placements NewPlacementRules) 999 = None"
    by (simp add: mapIndex_def NewPlacementRules_def EveryCountry_def)
  have b: "mapIndex (placements NewPlacementRules) 0 = Some AnyFilter"
    by (simp add: mapIndex_def NewPlacementRules_def EveryCountry_def)
  have c: "mapIndex (placements \<lparr>placements = None\<rparr>) 0 = (None :: NodeFilter option)"
    by (simp add: mapIndex_def)
  show ?thesis
    using CreateFilters_registered_or_deny_all [of NewPlacementRules 999]
      CreateFilters_registered_or_deny_all [of NewPlacementRules 0]
      CreateFilters_registered_or_deny_all [of "\<lparr>placements = None\<rparr>" 0] a b c
    by simp
qed

text \<open>
  C3. The claim: \<^verbatim>\<open>country(token...)\<close> fails with an error on the empty token list, and
  fails with an invalid-country-code error that names the offending token when a token
  is not recognized; otherwise it returns a country filter.
  On the empty list the code returns the filter of the empty set.
\<close>

theorem country_empty_list_counterexample: "country sample_ext [] = Ok [CountryFilter {}]"
  by (simp add: country_def)

text \<open>
  C3, amended. On the empty token list \<^verbatim>\<open>country\<close> returns the country filter of the
  empty set, without an error. On a list with no empty token: it fails with an
  invalid-country-code error when some token, without its one leading \<^verbatim>\<open>!\<close>, is neither a
  special token nor a string with a country code, and otherwise it returns a country
  filter.
\<close>

theorem country_empty_invalid_or_filter:
  "country x [] = Ok [CountryFilter {}] \<and>
   ([] \<notin> set countries \<longrightarrow>
      ((\<exists>t\<in>set countries. \<not> token_known x t) \<longrightarrow>
         (\<exists>c. country x countries = Err (InvalidCountryCode c))) \<and>
      ((\<forall>t\<in>set countries. token_known x t) \<longrightarrow>
         (\<exists>cset. country x countries = Ok [CountryFilter cset])))"
proof (intro conjI impI)
  show "country x [] = Ok [CountryFilter {}]" by (simp add: country_def)
next
  assume "[] \<notin> set countries" and "\<exists>t\<in>set countries. \<not> token_known x t"
  then obtain c where "country_loop x {} countries = Err (InvalidCountryCode c)"
    using country_loop_unknown by blast
  then show "\<exists>c. country x countries = Err (InvalidCountryCode c)"
    by (simp add: country_def)
next
  assume "[] \<notin> set countries" and "\<forall>t\<in>set countries. token_known x t"
  then obtain s1 where "country_loop x {} countries = Ok s1"
    using country_loop_known by blast
  then show "\<exists>cset. country x countries = Ok [CountryFilter cset]"
    by (simp add: country_def)
qed

theorem country_empty_invalid_or_filter_witness:
  "token_known sample_ext ''us'' \<and> \<not> token_known sample_ext ''zz'' \<and>
   token_known sample_ext ''!eu'' \<and>
   (\<exists>c. country sample_ext [''us'', ''zz''] = Err (InvalidCountryCode c)) \<and>
   (\<exists>cset. country sample_ext [''us'', ''!eu''] = Ok [CountryFilter cset])"
  using country_empty_invalid_or_filter [of sample_ext "[''us'', ''zz'']"]
    country_empty_invalid_or_filter [of sample_ext "[''us'', ''!eu'']"]
    known_us known_neg_eu unknown_zz
  by simp

text \<open>
  C4. The claim: for any filters A, B and C, \<^verbatim>\<open>(A && B) && C\<close>, \<^verbatim>\<open>A && (B && C)\<close> and
  \<^verbatim>\<open>all(A, B, C)\<close> are the same conjunction of one level, with the members A, B, C.
  The operator nests: with \<^verbatim>\<open>AnyFilter\<close>, \<^verbatim>\<open>ExcludeAllFilter\<close> and an \<^verbatim>\<open>ExcludeFilter\<close>,
  \<^verbatim>\<open>(A && B) && C\<close> is the slice of the slice of A and B, and of C.
\<close>

theorem OpAnd_nests_counterexample:
  "OpAnd (VFilter AnyFilter) (VFilter ExcludeAllFilter) =
     Ok (VFilter (NodeFilters [AnyFilter, ExcludeAllFilter])) \<and>
   OpAnd (VFilter (NodeFilters [AnyFilter, ExcludeAllFilter])) (VFilter (ExcludeFilter AnyFilter)) =
     Ok (VFilter (NodeFilters [NodeFilters [AnyFilter, ExcludeAllFilter], ExcludeFilter AnyFilter])) \<and>
   NodeFilters [NodeFilters [AnyFilter, ExcludeAllFilter], ExcludeFilter AnyFilter] \<noteq>
     NodeFilters [AnyFilter, ExcludeAllFilter, ExcludeFilter AnyFilter]"
  by (simp add: OpAnd_def)

text \<open>
  C4, amended. \<^verbatim>\<open>all\<close> takes conjunctions and returns the one list of their members, in
  order, so \<^verbatim>\<open>all\<close> of the conjunctions of A, of B and of C, or of the conjunction of A
  and B and that of C, is the conjunction of one level with the members A, B, C. The
  operator \<^verbatim>\<open>&&\<close> returns the conjunction of its two operands as they are: \<^verbatim>\<open>(A && B) && C\<close>
  has the members \<^verbatim>\<open>A && B\<close> and C, \<^verbatim>\<open>A && (B && C)\<close> has the members A and \<^verbatim>\<open>B && C\<close>, and
  these two values and the conjunction of one level are three different values.
\<close>

theorem all_flattens_OpAnd_nests:
  "all_filters fss = Ok (concat fss) \<and>
   all_filters [[A], [B], [C]] = Ok [A, B, C] \<and>
   all_filters [[A, B], [C]] = Ok [A, B, C] \<and>
   OpAnd (VFilter A) (VFilter B) = Ok (VFilter (NodeFilters [A, B])) \<and>
   OpAnd (VFilter (NodeFilters [A, B])) (VFilter C) =
     Ok (VFilter (NodeFilters [NodeFilters [A, B], C])) \<and>
   OpAnd (VFilter A) (VFilter (NodeFilters [B, C])) =
     Ok (VFilter (NodeFilters [A, NodeFilters [B, C]])) \<and>
   NodeFilters [NodeFilters [A, B], C] \<noteq> NodeFilters [A, NodeFilters [B, C]] \<and>
   NodeFilters [NodeFilters [A, B], C] \<noteq> NodeFilters [A, B, C] \<and>
   NodeFilters [A, NodeFilters [B, C]] \<noteq> NodeFilters [A, B, C]"
  using NodeFilters_pair_neq [of A B]
  by (simp add: all_filters_concat OpAnd_def)

text \<open>
  C5. With respect to the match outcome the conjunction does not depend on the grouping
  or the order: for every node, \<^verbatim>\<open>all(as, bs, cs)\<close> matches iff each of the three
  conjunctions matches, and \<^verbatim>\<open>(A && B) && C\<close> and \<^verbatim>\<open>A && (B && C)\<close> each match iff A, B and
  C all match.
\<close>

theorem conjunction_matches_iff_all_match:
  "(\<exists>fs. all_filters [as, bs, cs] = Ok fs \<and>
      Match (NodeFilters fs) node =
        (Match (NodeFilters as) node \<and> Match (NodeFilters bs) node \<and> Match (NodeFilters cs) node)) \<and>
   (\<exists>ab abc. OpAnd (VFilter A) (VFilter B) = Ok ab \<and> OpAnd ab (VFilter C) = Ok (VFilter abc) \<and>
      Match abc node = (Match A node \<and> Match B node \<and> Match C node)) \<and>
   (\<exists>bc abc. OpAnd (VFilter B) (VFilter C) = Ok bc \<and> OpAnd (VFilter A) bc = Ok (VFilter abc) \<and>
      Match abc node = (Match A node \<and> Match B node \<and> Match C node))"
  by (auto simp: all_filters_concat OpAnd_def MatchEvery_append)

text \<open>
  C6. The claim: a leading \<^verbatim>\<open>!\<close> on any token, the special tokens \<^verbatim>\<open>all\<close>, \<^verbatim>\<open>*\<close>, \<^verbatim>\<open>any\<close>,
  \<^verbatim>\<open>none\<close>, \<^verbatim>\<open>eu\<close>, \<^verbatim>\<open>eea\<close> included, turns that token's \<^verbatim>\<open>With\<close> into \<^verbatim>\<open>Without\<close>.
  On \<^verbatim>\<open>all\<close> the \<^verbatim>\<open>!\<close> changes nothing: after \<^verbatim>\<open>us\<close>, both \<^verbatim>\<open>!all\<close> and \<^verbatim>\<open>all\<close> give the
  full set.
\<close>

theorem country_negated_all_counterexample:
  "country sample_ext [''us'', ''!all''] = Ok [CountryFilter UNIV] \<and>
   country sample_ext [''us'', ''all''] = Ok [CountryFilter UNIV]"
  by (simp add: country_def country_token_def sample_ext_def sample_ToCountryCode_def
      ToLower_def toLowerByte_def With_def Let_def NewFullSet_def)

text \<open>
  C6, amended. For a token \<open>t\<close> that is not empty and does not itself start with \<^verbatim>\<open>!\<close>,
  at any place in the list (after the tokens \<open>pre\<close>, which leave the set \<open>s1\<close>, and
  before the tokens \<open>post\<close>): when \<open>t\<close> is \<^verbatim>\<open>none\<close>, \<^verbatim>\<open>eu\<close>, \<^verbatim>\<open>eea\<close> or a country string,
  naming the codes \<open>codes\<close>, the token \<open>t\<close> passes \<open>With s1 codes\<close> on to the rest of the
  list and the token \<^verbatim>\<open>!\<close>\<open>t\<close> passes \<open>Without s1 codes\<close> on to the same rest; when \<open>t\<close>
  is \<^verbatim>\<open>all\<close>, \<^verbatim>\<open>*\<close> or \<^verbatim>\<open>any\<close>, both \<open>t\<close> and \<^verbatim>\<open>!\<close>\<open>t\<close> pass the full set on.
\<close>

theorem country_negation_one_token:
  assumes "t \<noteq> []" and "t ! 0 \<noteq> CHR ''!''" and "country_loop x s pre = Ok s1"
  shows "(full_set_token t \<longrightarrow>
            country_loop x s (pre @ t # post) = country_loop x NewFullSet post \<and>
            country_loop x s (pre @ (CHR ''!'' # t) # post) = country_loop x NewFullSet post) \<and>
         (\<not> full_set_token t \<longrightarrow> (\<forall>codes. token_codes x t = Ok codes \<longrightarrow>
            country_loop x s (pre @ t # post) = country_loop x (With s1 codes) post \<and>
            country_loop x s (pre @ (CHR ''!'' # t) # post) =
              country_loop x (Without s1 codes) post))"
  using assms
  by (auto simp: country_loop_append country_token_plain country_token_negated
      country_token_full)

theorem country_negation_one_token_witness:
  "''eu'' \<noteq> [] \<and> ''eu'' ! 0 \<noteq> CHR ''!'' \<and> \<not> full_set_token ''eu'' \<and>
   country_loop sample_ext {} [''us'', ''de''] = Ok {1, 2} \<and>
   token_codes sample_ext ''eu'' = Ok [2, 5] \<and>
   country_loop sample_ext {} ([''us'', ''de''] @ ''!eu'' # [''fr'']) = Ok {1, 5} \<and>
   full_set_token ''Any'' \<and>
   country_loop sample_ext {} ([''us'', ''de''] @ ''!Any'' # []) = Ok UNIV"
proof -
  have a: "''eu'' \<noteq> []" and b: "''eu'' ! 0 \<noteq> CHR ''!''" by simp_all
  have a': "''Any'' \<noteq> []" and b': "''Any'' ! 0 \<noteq> CHR ''!''" by simp_all
  have c: "\<not> full_set_token ''eu''"
    by (simp add: full_set_token_def ToLower_def toLowerByte_def)
  have "ToLower ''Any'' = ''any''" by code_simp
  then have c': "full_set_token ''Any''"
    by (simp add: full_set_token_def)
  show ?thesis
    using country_negation_one_token [OF a b loop_us_de, of "[''fr'']"]
      country_negation_one_token [OF a' b' loop_us_de, of "[]"]
      a b c c' codes_eu loop_us_de loop_fr
    by (simp add: Without_def NewFullSet_def)
qed



text \<open>
  C8. \<^verbatim>\<open>String\<close> renders the entries with an identifier above 9, and only those, in
  the order the runtime visits the map: the first as the identifier in decimal, a colon
  and the filter's text, and every further one as a semicolon followed by the same three
  parts. The decimal text is made of digits, reads back as the identifier and has no
  leading zero. So a registry with no identifier above 9 renders as the empty string,
  the registry of the built-in rules is one of these, and a registry whose one
  identifier above 9 is \<open>k\<close> renders as the one entry of \<open>k\<close>, with no entry of an
  identifier up to 9.
\<close>

theorem String_renders_only_above_9:
  assumes "range_of (placements d) kvs"
  shows "String x kvs =
           Join (map (\<lambda>(i, f). Sprintf_d_s x i f) (filter (\<lambda>(i, f). 9 < i) kvs)) '';'' \<and>
         ((\<forall>i f. mapIndex (placements d) i = Some f \<longrightarrow> i \<le> 9) \<longrightarrow> String x kvs = []) \<and>
         (AddLegacyStaticRules x NewPlacementRules = Ok d \<longrightarrow> String x kvs = []) \<and>
         (\<forall>k f. mapIndex (placements d) k = Some f \<and> 9 < k \<and>
                (\<forall>i g. mapIndex (placements d) i = Some g \<longrightarrow> i = k \<or> i \<le> 9) \<longrightarrow>
            String x kvs = FormatUint (unat k) @ '':'' @ Sprintf_s x f) \<and>
         String x kvs =
           (case filter (\<lambda>(i, f). 9 < i) kvs of
              [] \<Rightarrow> []
            | (i, f) # others \<Rightarrow>
                FormatUint (unat i) @ '':'' @ Sprintf_s x f @
                concat (map (\<lambda>(j, g). '';'' @ FormatUint (unat j) @ '':'' @ Sprintf_s x g) others)) \<and>
         (\<forall>n. list_all isDigit (FormatUint n) \<and>
              foldl (\<lambda>a c. a * 10 + (of_char c - 48)) 0 (FormatUint n) = n \<and>
              (0 < n \<longrightarrow> hd (FormatUint n) \<noteq> CHR ''0''))"
proof (intro conjI impI allI)
  have dist: "distinct (map fst kvs)"
    using assms by (simp add: range_of_def)
  show char: "String x kvs =
           Join (map (\<lambda>(i, f). Sprintf_d_s x i f) (filter (\<lambda>(i, f). 9 < i) kvs)) '';''"
    by (simp add: String_def String_parts_acc)
  {
    assume "\<forall>i f. mapIndex (placements d) i = Some f \<longrightarrow> i \<le> 9"
    then have "\<forall>(i, f)\<in>set kvs. i \<le> 9"
      using range_of_set [OF assms] by auto
    then have "filter (\<lambda>(i, f). 9 < i) kvs = []" by (rule filter_none_above)
    then show "String x kvs = []" using char by simp
  }
  {
    assume "AddLegacyStaticRules x NewPlacementRules = Ok d"
    then have "placements d = Some ([EveryCountry \<mapsto> AnyFilter]
          (EEA \<mapsto> NodeFilters [CountryFilter (With (NewSet (EeaCountriesWithoutEu x)) (EuCountries x))],
           EU \<mapsto> NodeFilters [CountryFilter (NewSet (EuCountries x))],
           US \<mapsto> NodeFilters [CountryFilter (NewSet [UnitedStates x])],
           DE \<mapsto> NodeFilters [CountryFilter (NewSet [Germany x])],
           NR \<mapsto> NodeFilters [CountryFilter
                   (Without NewFullSet [Russia x, Belarus x, location_None x])]))"
      by (auto simp: AddLegacyStaticRules_def NewPlacementRules_def)
    then have "\<forall>i f. mapIndex (placements d) i = Some f \<longrightarrow> i \<le> 9"
      by (auto simp: mapIndex_def EveryCountry_def EEA_def EU_def US_def DE_def NR_def
          split: if_splits)
    then have "\<forall>(i, f)\<in>set kvs. i \<le> 9"
      using range_of_set [OF assms] by auto
    then have "filter (\<lambda>(i, f). 9 < i) kvs = []" by (rule filter_none_above)
    then show "String x kvs = []" using char by simp
  }
  {
    fix k f
    assume a: "mapIndex (placements d) k = Some f \<and> 9 < k \<and>
                (\<forall>i g. mapIndex (placements d) i = Some g \<longrightarrow> i = k \<or> i \<le> 9)"
    then have "(k, f) \<in> set kvs" and "\<forall>(i, g)\<in>set kvs. i = k \<or> i \<le> 9"
      using range_of_set [OF assms] by auto
    then have "filter (\<lambda>(i, f). 9 < i) kvs = [(k, f)]"
      using filter_one_above [of kvs k f] dist a by simp
    then show "String x kvs = FormatUint (unat k) @ '':'' @ Sprintf_s x f"
      using char by (simp add: Sprintf_d_s_def)
  }
  show "String x kvs =
           (case filter (\<lambda>(i, f). 9 < i) kvs of
              [] \<Rightarrow> []
            | (i, f) # others \<Rightarrow>
                FormatUint (unat i) @ '':'' @ Sprintf_s x f @
                concat (map (\<lambda>(j, g). '';'' @ FormatUint (unat j) @ '':'' @ Sprintf_s x g) others))"
  proof (cases "filter (\<lambda>(i, f). 9 < i) kvs")
    case Nil
    then show ?thesis using char by simp
  next
    case (Cons a others)
    obtain i f where a: "a = (i, f)" by (cases a)
    have eq: "concat (map (\<lambda>b. '';'' @ b) (map (\<lambda>(j, g). Sprintf_d_s x j g) others)) =
        concat (map (\<lambda>(j, g). '';'' @ FormatUint (unat j) @ '':'' @ Sprintf_s x g) others)"
      by (induction others) (auto simp: Sprintf_d_s_def)
    have "String x kvs = Join (Sprintf_d_s x i f # map (\<lambda>(j, g). Sprintf_d_s x j g) others) '';''"
      using char Cons a by simp
    also have "\<dots> = Sprintf_d_s x i f @
        concat (map (\<lambda>b. '';'' @ b) (map (\<lambda>(j, g). Sprintf_d_s x j g) others))"
      by (rule Join_explicit)
    also have "\<dots> = Sprintf_d_s x i f @
        concat (map (\<lambda>(j, g). '';'' @ FormatUint (unat j) @ '':'' @ Sprintf_s x g) others)"
      by (simp only: eq)
    finally show ?thesis using Cons a by (simp add: Sprintf_d_s_def)
  qed
  fix n :: nat
  show "list_all isDigit (FormatUint n)" by (rule FormatUint_digits)
  show "foldl (\<lambda>a c. a * 10 + (of_char c - 48)) 0 (FormatUint n) = n" by (rule FormatUint_value)
  assume "0 < n"
  then show "hd (FormatUint n) \<noteq> CHR ''0''" by (rule FormatUint_no_leading_zero)
qed

theorem String_renders_only_above_9_witness:
  \<open>range_of (Some (map_of sample_legacy)) sample_legacy \<and>
   AddLegacyStaticRules sample_ext NewPlacementRules =
     Ok \<lparr>placements = Some (map_of sample_legacy)\<rparr> \<and>
   String sample_ext sample_legacy = [] \<and>
   AddPlacementFromString sample_ext \<lparr>placements = Some (map_of sample_legacy)\<rparr> ''10:country("us")'' =
     (\<lparr>placements = Some (map_of ((10, NodeFilters [CountryFilter {1}]) # sample_legacy))\<rparr>, Ok ()) \<and>
   range_of (Some (map_of ((10, NodeFilters [CountryFilter {1}]) # sample_legacy)))
     ((10, NodeFilters [CountryFilter {1}]) # sample_legacy) \<and>
   String sample_ext ((10, NodeFilters [CountryFilter {1}]) # sample_legacy) = ''10:filter'' \<and>
   AddPlacementFromString sample_ext \<lparr>placements = Some (map_of sample_legacy)\<rparr>
       ''10:country("us");300:country("de")'' =
     (\<lparr>placements = Some ((map_of sample_legacy)
         (10 \<mapsto> NodeFilters [CountryFilter {1}], 300 \<mapsto> NodeFilters [CountryFilter {2}]))\<rparr>, Ok ()) \<and>
   range_of (Some ((map_of sample_legacy)
         (10 \<mapsto> NodeFilters [CountryFilter {1}], 300 \<mapsto> NodeFilters [CountryFilter {2}])))
     sample_visit \<and>
   String sample_ext sample_visit = ''10:filter;300:filter'' \<and>
   FormatUint 65535 = ''65535''\<close>
proof -
  let ?F = "NodeFilters [CountryFilter {1}]"
  let ?G = "NodeFilters [CountryFilter {2}]"
  let ?d0 = "\<lparr>placements = Some (map_of sample_legacy)\<rparr>"
  let ?d1 = "\<lparr>placements = Some (map_of ((10, ?F) # sample_legacy))\<rparr>"
  let ?d2 = "\<lparr>placements = Some ((map_of sample_legacy)(10 \<mapsto> ?F, 300 \<mapsto> ?G))\<rparr>"
  have r0: "range_of (placements ?d0) sample_legacy"
    by (simp add: range_of_def mapIndex_Some sample_legacy_def NR_def DE_def US_def EU_def EEA_def
        EveryCountry_def)
  have l0: "AddLegacyStaticRules sample_ext NewPlacementRules = Ok ?d0"
    by (simp add: AddLegacyStaticRules_def NewPlacementRules_def sample_legacy_def sample_ext_def)
  have l1: \<open>AddPlacementFromString sample_ext ?d0 ''10:country("us")'' = (?d1, Ok ())\<close>
    using load_us_on [of ?d0 "map_of sample_legacy"] by simp
  have r1: "range_of (placements ?d1) ((10, ?F) # sample_legacy)"
    by (simp add: range_of_def mapIndex_Some sample_legacy_def NR_def DE_def US_def EU_def EEA_def
        EveryCountry_def)
  have k: "mapIndex (placements ?d1) 10 = Some ?F \<and> (9 :: PlacementConstraint) < 10 \<and>
      (\<forall>i g. mapIndex (placements ?d1) i = Some g \<longrightarrow> i = 10 \<or> i \<le> 9)"
    by (auto simp: mapIndex_Some sample_legacy_def NR_def DE_def US_def EU_def EEA_def
        EveryCountry_def split: if_splits)
  have l2: \<open>AddPlacementFromString sample_ext ?d0 ''10:country("us");300:country("de")'' =
      (?d2, Ok ())\<close>
    using load_us_de_on [of ?d0 "map_of sample_legacy"] by simp
  have r2: "range_of (placements ?d2) sample_visit"
    unfolding range_of_def
  proof
    show "distinct (map fst sample_visit)"
      by (simp add: sample_visit_def NR_def DE_def US_def EU_def EEA_def EveryCountry_def)
    show "mapIndex (placements ?d2) = map_of sample_visit"
      by (rule ext)
        (simp add: mapIndex_Some sample_visit_def sample_legacy_def NR_def DE_def US_def EU_def
          EEA_def EveryCountry_def)
  qed
  have s: "\<And>f. Sprintf_s sample_ext f = ''filter''" by (simp add: sample_ext_def)
  have e0: "String sample_ext sample_legacy = []"
    using String_renders_only_above_9 [OF r0, of sample_ext] l0 by blast
  have "String sample_ext ((10, ?F) # sample_legacy) =
      FormatUint (unat (10 :: PlacementConstraint)) @ '':'' @ Sprintf_s sample_ext ?F"
    using String_renders_only_above_9 [OF r1, of sample_ext] k by blast
  then have e1: "String sample_ext ((10, ?F) # sample_legacy) = ''10:filter''"
    using s by (simp add: FormatUint_10)
  have "String sample_ext sample_visit =
      (case filter (\<lambda>(i, f). 9 < i) sample_visit of
         [] \<Rightarrow> []
       | (i, f) # others \<Rightarrow>
           FormatUint (unat i) @ '':'' @ Sprintf_s sample_ext f @
           concat (map (\<lambda>(j, g). '';'' @ FormatUint (unat j) @ '':'' @ Sprintf_s sample_ext g) others))"
    using String_renders_only_above_9 [OF r2, of sample_ext] by (elim conjE)
  then have e2: "String sample_ext sample_visit = ''10:filter;300:filter''"
    using s
    by (simp add: sample_visit_def NR_def DE_def US_def EU_def EEA_def EveryCountry_def
        FormatUint_10 FormatUint_300)
  have e3: "FormatUint 65535 = ''65535''" by (simp add: FormatUint.simps)
  show ?thesis
    using r0 l0 l1 r1 e0 e1 l2 r2 e2 e3 by simp
qed

text \<open>
  C9. An entry that is not blank and has no colon makes the load panic, not return an
  error: \<^verbatim>\<open>SplitN\<close> gives one piece and \<^verbatim>\<open>idDef[1]\<close> is out of range. When the entries
  before it load, leaving the registry \<open>d1\<close>, the load of the whole string ends in that
  panic with the registry \<open>d1\<close>. The input \<^verbatim>\<open>foo\<close> is one such string.
\<close>

theorem AddPlacementFromString_no_colon_panics:
  assumes "Split definitions (CHR '';'') = pre @ entry # post"
    and "AddPlacementFromString_loop x d pre = (d1, Ok ())"
    and "TrimSpace entry \<noteq> []" and "CHR '':'' \<notin> set entry"
  shows "AddPlacementFromString x d definitions = (d1, Panic IndexOutOfRange)"
proof -
  have "AddPlacementFromString x d definitions = AddPlacementFromString_loop x d1 (entry # post)"
    unfolding AddPlacementFromString_def assms(1) loop_append assms(2) by simp
  then show ?thesis using loop_colon_free [OF assms(3,4)] by simp
qed

theorem AddPlacementFromString_no_colon_panics_witness:
  "Split ''foo'' (CHR '';'') = [] @ ''foo'' # [] \<and>
   AddPlacementFromString_loop sample_ext NewPlacementRules [] = (NewPlacementRules, Ok ()) \<and>
   TrimSpace ''foo'' \<noteq> [] \<and> CHR '':'' \<notin> set ''foo'' \<and>
   AddPlacementFromString sample_ext NewPlacementRules ''foo'' =
     (NewPlacementRules, Panic IndexOutOfRange)"
proof -
  have a: "Split ''foo'' (CHR '';'') = [] @ ''foo'' # []" by code_simp
  have b: "AddPlacementFromString_loop sample_ext NewPlacementRules [] = (NewPlacementRules, Ok ())"
    by simp
  have c: "TrimSpace ''foo'' \<noteq> []" by code_simp
  have d: "CHR '':'' \<notin> set ''foo''" by simp
  show ?thesis
    using AddPlacementFromString_no_colon_panics [OF a b c d] a b c d by blast
qed

text \<open>
  C10. On the empty token \<^verbatim>\<open>country\<close> reads \<^verbatim>\<open>country[0]\<close> before it looks at the token:
  when the tokens before the empty one are accepted the call panics, and otherwise it
  ends as it does on those tokens alone, in their error or panic. So the empty token
  never gets the invalid-country-code error, and a call with an empty token never
  returns a filter.
\<close>

theorem country_empty_token_panics:
  "country x (pre @ [] # post) =
     (case country x pre of
        Ok fs \<Rightarrow> Panic IndexOutOfRange
      | Err e \<Rightarrow> Err e
      | Panic p \<Rightarrow> Panic p)"
  by (simp add: country_def country_loop_append country_token_empty split: result.splits)

theorem country_empty_token_panics_witness:
  "country sample_ext [''us''] = Ok [CountryFilter {1}] \<and>
   country sample_ext ([''us''] @ [] # [''de'']) = Panic IndexOutOfRange"
  using country_empty_token_panics [of sample_ext "[''us'']" "[''de'']"] sample_country_us
  by simp

end
